theory Spec2Isabelle
  imports Main
begin

section \<open>The header libvirt\_admin\_generated\_typedefs.h\<close>

text \<open>
  The file under study is a C header without any function: a \<^verbatim>\<open>#pragma once\<close>
  line followed by six conditional sections, each holding one \<^verbatim>\<open>typedef\<close>.
  Its behaviour is what the C preprocessor and the declaration checker of the compiler
  make of it in a given build environment. The header is therefore kept as data, line
  by line as it is written, and the preprocessor is the function that runs it.
\<close>

subsection \<open>Declarations\<close>

text \<open>
  The three shapes of type the header writes: \<^verbatim>\<open>struct _tag\<close> (a forward
  declaration, no fields), a typedef name, and \<^verbatim>\<open>T *\<close>.
\<close>

datatype ctype = Struct string | TypeName string | Pointer ctype

text \<open>\<^verbatim>\<open>typedef <type> <name>;\<close>\<close>

datatype decl = Typedef ctype string

fun declared_name :: "decl \<Rightarrow> string" where
  "declared_name (Typedef ty n) = n"

fun declared_type :: "decl \<Rightarrow> ctype" where
  "declared_type (Typedef ty n) = ty"

subsection \<open>Tokens of a conditional and the lines of a file\<close>

text \<open>
  The tokens that occur in the controlling expressions of the header. A number token
  has no sign, and the only operator is \<^verbatim>\<open>!\<close>, so every value is a natural
  number.
\<close>

datatype pp_token = Bang | LParen | RParen | Comma | PPNumber nat | Identifier string

text \<open>
  A file is a group of parts (ISO C 6.10): a \<^verbatim>\<open>#pragma once\<close> line, a text
  line holding one declaration, or a section \<^verbatim>\<open>#if tokens ... #endif\<close> with
  the group it encloses. Comments and blank lines are gone after translation phase 3.
\<close>

datatype group_part =
    PragmaOnce
  | Text decl
  | IfSection "pp_token list" "group_part list"

text \<open>The header, lines 29 to 53 of the source, in the order of the file.\<close>

definition libvirt_admin_generated_typedefs_h :: "group_part list" where
  "libvirt_admin_generated_typedefs_h =
    [PragmaOnce,
     IfSection [Bang, Identifier ''LIBVIR_CHECK_VERSION'', LParen,
                PPNumber 2, Comma, PPNumber 0, Comma, PPNumber 0, RParen]
       [Text (Typedef (Struct ''_virAdmClient'') ''virAdmClient'')],
     IfSection [Bang, Identifier ''LIBVIR_CHECK_VERSION'', LParen,
                PPNumber 2, Comma, PPNumber 0, Comma, PPNumber 0, RParen]
       [Text (Typedef (Struct ''_virAdmConnect'') ''virAdmConnect'')],
     IfSection [Bang, Identifier ''LIBVIR_CHECK_VERSION'', LParen,
                PPNumber 2, Comma, PPNumber 0, Comma, PPNumber 0, RParen]
       [Text (Typedef (Struct ''_virAdmServer'') ''virAdmServer'')],
     IfSection [Bang, Identifier ''LIBVIR_CHECK_VERSION'', LParen,
                PPNumber 2, Comma, PPNumber 0, Comma, PPNumber 0, RParen]
       [Text (Typedef (Pointer (TypeName ''virAdmClient'')) ''virAdmClientPtr'')],
     IfSection [Bang, Identifier ''LIBVIR_CHECK_VERSION'', LParen,
                PPNumber 2, Comma, PPNumber 0, Comma, PPNumber 0, RParen]
       [Text (Typedef (Pointer (TypeName ''virAdmConnect'')) ''virAdmConnectPtr'')],
     IfSection [Bang, Identifier ''LIBVIR_CHECK_VERSION'', LParen,
                PPNumber 2, Comma, PPNumber 0, Comma, PPNumber 0, RParen]
       [Text (Typedef (Pointer (TypeName ''virAdmServer'')) ''virAdmServerPtr'')]]"

text \<open>The name under which the header is included.\<close>

definition header_path :: string where
  "header_path = ''libvirt_admin_generated_typedefs.h''"

section \<open>The build environment\<close>

subsection \<open>Library versions and the version predicate\<close>

datatype version = Version nat nat nat

fun version_less :: "version \<Rightarrow> version \<Rightarrow> bool" where
  "version_less (Version a b c) (Version x y z) =
     (a < x \<or> (a = x \<and> (b < y \<or> (b = y \<and> c < z))))"

definition version_at_least :: "version \<Rightarrow> version \<Rightarrow> bool" where
  "version_at_least v w = (\<not> version_less v w)"

text \<open>
  A function-like macro, by what an invocation with number arguments evaluates to;
  \<open>None\<close> when the number of arguments does not fit its parameter list.
\<close>

type_synonym function_macro = "nat list \<Rightarrow> nat option"

type_synonym macro_env = "string \<rightharpoonup> function_macro"

text \<open>
  Modelled from the spec: the macro \<^verbatim>\<open>LIBVIR_CHECK_VERSION\<close> is not defined in
  this repository, the headers of the target library supply it. The spec gives its
  contract: "given three integer components (major, minor, patch), returns whether the
  configured target library version is at least that version". The first argument here
  is the configured target library version.
\<close>

fun LIBVIR_CHECK_VERSION :: "version \<Rightarrow> function_macro" where
  "LIBVIR_CHECK_VERSION target [major, minor, patch] =
     Some (if version_at_least target (Version major minor patch) then 1 else 0)"
| "LIBVIR_CHECK_VERSION target args = None"

text \<open>The environment of a build against the library at version \<open>target\<close>.\<close>

definition libvirt_env :: "version \<Rightarrow> macro_env" where
  "libvirt_env target = [''LIBVIR_CHECK_VERSION'' \<mapsto> LIBVIR_CHECK_VERSION target]"

section \<open>The preprocessor\<close>

datatype build_error =
    ExpectedExpression
  | MissingBinaryOperator pp_token
  | BadMacroInvocation string
  | Redefinition string
  | UnknownTypeName string

text \<open>
  The arguments of a macro invocation, read after its opening parenthesis: numbers
  separated by commas, up to the closing parenthesis. The result holds the tokens that
  follow the invocation.
\<close>

fun macro_args :: "pp_token list \<Rightarrow> (nat list \<times> pp_token list) option" where
  "macro_args (PPNumber n # RParen # ts) = Some ([n], ts)"
| "macro_args (PPNumber n # Comma # ts) =
     (case macro_args ts of
        None \<Rightarrow> None
      | Some (ns, rest) \<Rightarrow> Some (n # ns, rest))"
| "macro_args ts = None"

text \<open>
  A unary expression at the head of the tokens, with its value and the tokens left
  over (ISO C 6.10.1). An invocation of a defined macro is replaced by its value. An
  identifier that is not a macro, or is the name of a function-like macro without a
  following parenthesis, is replaced by the number \<^verbatim>\<open>0\<close>; whatever follows it
  is left in place.
\<close>

fun unary :: "macro_env \<Rightarrow> pp_token list \<Rightarrow> build_error + (nat \<times> pp_token list)" where
  "unary env (Bang # ts) =
     (case unary env ts of
        Inl e \<Rightarrow> Inl e
      | Inr (v, rest) \<Rightarrow> Inr (if v = 0 then 1 else 0, rest))"
| "unary env (PPNumber n # ts) = Inr (n, ts)"
| "unary env (Identifier x # ts) =
     (case env x of
        None \<Rightarrow> Inr (0, ts)
      | Some m \<Rightarrow>
          (case ts of
             LParen # as \<Rightarrow>
               (case macro_args as of
                  None \<Rightarrow> Inl (BadMacroInvocation x)
                | Some (ns, rest) \<Rightarrow>
                    (case m ns of
                       None \<Rightarrow> Inl (BadMacroInvocation x)
                     | Some v \<Rightarrow> Inr (v, rest)))
           | _ \<Rightarrow> Inr (0, ts)))"
| "unary env ts = Inl ExpectedExpression"

text \<open>
  The controlling expression of \<^verbatim>\<open>#if\<close>: the whole line must be one
  expression. A token left over after it is the error
  \<^verbatim>\<open>missing binary operator before token\<close>.
\<close>

definition eval_if :: "macro_env \<Rightarrow> pp_token list \<Rightarrow> build_error + bool" where
  "eval_if env ts =
     (case unary env ts of
        Inl e \<Rightarrow> Inl e
      | Inr (v, []) \<Rightarrow> Inr (v \<noteq> 0)
      | Inr (v, t # rest) \<Rightarrow> Inl (MissingBinaryOperator t))"

subsection \<open>The translation unit\<close>

text \<open>
  What a compilation pass has seen so far: the files marked by
  \<^verbatim>\<open>#pragma once\<close>, and the declarations in the order they became visible.
\<close>

record translation_unit =
  once_only :: "string list"
  declarations :: "decl list"

definition empty_unit :: translation_unit where
  "empty_unit = \<lparr>once_only = [], declarations = []\<rparr>"

definition visible_names :: "translation_unit \<Rightarrow> string list" where
  "visible_names tu = map declared_name (declarations tu)"

text \<open>The typedef names a type refers to; a struct tag needs no earlier declaration.\<close>

fun type_names :: "ctype \<Rightarrow> string list" where
  "type_names (Struct tag) = []"
| "type_names (TypeName n) = [n]"
| "type_names (Pointer ty) = type_names ty"

text \<open>
  A declaration becomes visible. Declaring a visible name again is the
  duplicate-definition error (ISO C99 6.7; C11 tolerates an identical typedef, so this
  is the stricter rule), and a typedef name that is used must be visible already.
\<close>

definition add_declaration :: "decl \<Rightarrow> translation_unit \<Rightarrow> build_error + translation_unit" where
  "add_declaration d tu =
     (if declared_name d \<in> set (visible_names tu) then Inl (Redefinition (declared_name d))
      else (case filter (\<lambda>n. n \<notin> set (visible_names tu)) (type_names (declared_type d)) of
              n # ns \<Rightarrow> Inl (UnknownTypeName n)
            | [] \<Rightarrow> Inr (tu\<lparr>declarations := declarations tu @ [d]\<rparr>)))"

text \<open>
  Running the parts of the file \<open>file\<close> in order. The group of a section whose
  condition is false is skipped; an error stops the pass.
\<close>

fun process_part ::
    "macro_env \<Rightarrow> string \<Rightarrow> group_part \<Rightarrow> translation_unit \<Rightarrow> build_error + translation_unit"
  and process_group ::
    "macro_env \<Rightarrow> string \<Rightarrow> group_part list \<Rightarrow> translation_unit \<Rightarrow> build_error + translation_unit"
where
  "process_part env file PragmaOnce tu = Inr (tu\<lparr>once_only := file # once_only tu\<rparr>)"
| "process_part env file (Text d) tu = add_declaration d tu"
| "process_part env file (IfSection cond body) tu =
     (case eval_if env cond of
        Inl e \<Rightarrow> Inl e
      | Inr holds \<Rightarrow> if holds then process_group env file body tu else Inr tu)"
| "process_group env file [] tu = Inr tu"
| "process_group env file (p # ps) tu =
     (case process_part env file p tu of
        Inl e \<Rightarrow> Inl e
      | Inr tu' \<Rightarrow> process_group env file ps tu')"

text \<open>
  \<^verbatim>\<open>#include\<close> of a file, given by its path and its parts: a file already
  marked by \<^verbatim>\<open>#pragma once\<close> is not read again.
\<close>

definition include_file ::
    "macro_env \<Rightarrow> string \<times> group_part list \<Rightarrow> translation_unit \<Rightarrow> build_error + translation_unit"
where
  "include_file env f tu =
     (if fst f \<in> set (once_only tu) then Inr tu
      else process_group env (fst f) (snd f) tu)"

fun include_all ::
    "macro_env \<Rightarrow> (string \<times> group_part list) list \<Rightarrow> translation_unit \<Rightarrow> build_error + translation_unit"
where
  "include_all env [] tu = Inr tu"
| "include_all env (f # fs) tu =
     (case include_file env f tu of
        Inl e \<Rightarrow> Inl e
      | Inr tu' \<Rightarrow> include_all env fs tu')"

text \<open>A compilation pass over a list of included files, from nothing.\<close>

definition compile ::
    "macro_env \<Rightarrow> (string \<times> group_part list) list \<Rightarrow> build_error + decl list"
where
  "compile env fs =
     (case include_all env fs empty_unit of
        Inl e \<Rightarrow> Inl e
      | Inr tu \<Rightarrow> Inr (declarations tu))"

definition shim :: "string \<times> group_part list" where
  "shim = (header_path, libvirt_admin_generated_typedefs_h)"

text \<open>What the shim emits in a build against the library at version \<open>v\<close>.\<close>

definition emitted :: "version \<Rightarrow> build_error + decl list" where
  "emitted v = compile (libvirt_env v) [shim]"

section \<open>Reading the structure of a file\<close>

text \<open>Every declaration written in a part, whatever its conditions.\<close>

fun written_in :: "group_part \<Rightarrow> decl list" where
  "written_in PragmaOnce = []"
| "written_in (Text d) = [d]"
| "written_in (IfSection cond body) = concat (map written_in body)"

definition all_declarations :: "group_part list \<Rightarrow> decl list" where
  "all_declarations parts = concat (map written_in parts)"

text \<open>The controlling expression of every conditional section, in file order.\<close>

fun guards_in :: "group_part \<Rightarrow> pp_token list list" where
  "guards_in PragmaOnce = []"
| "guards_in (Text d) = []"
| "guards_in (IfSection cond body) = cond # concat (map guards_in body)"

definition guards :: "group_part list \<Rightarrow> pp_token list list" where
  "guards parts = concat (map guards_in parts)"

text \<open>
  The conditional scope of a name: the position, among the parts of the file, of the part
  (for this header, the \<^verbatim>\<open>#if ... #endif\<close> section) in which the name is
  declared, counted from \<open>i\<close> for the first part.
\<close>

fun scope_from :: "nat \<Rightarrow> group_part list \<Rightarrow> string \<Rightarrow> nat option" where
  "scope_from i [] n = None"
| "scope_from i (p # ps) n =
     (if n \<in> set (map declared_name (written_in p)) then Some i
      else scope_from (Suc i) ps n)"

definition scope_of :: "group_part list \<Rightarrow> string \<Rightarrow> nat option" where
  "scope_of parts n = scope_from 0 parts n"

text \<open>The controlling expression of that scope, when it is a conditional section.\<close>

fun guard_of :: "group_part \<Rightarrow> pp_token list option" where
  "guard_of (IfSection cond body) = Some cond"
| "guard_of p = None"

fun guard_over :: "group_part list \<Rightarrow> string \<Rightarrow> pp_token list option" where
  "guard_over [] n = None"
| "guard_over (p # ps) n =
     (if n \<in> set (map declared_name (written_in p)) then guard_of p
      else guard_over ps n)"

text \<open>
  The handle kinds of the header: the names it declares as opaque struct types.
\<close>

fun is_struct :: "ctype \<Rightarrow> bool" where
  "is_struct (Struct tag) = True"
| "is_struct ty = False"

definition handle_kinds :: "string list" where
  "handle_kinds =
     map declared_name
       (filter (\<lambda>d. is_struct (declared_type d))
          (all_declarations libvirt_admin_generated_typedefs_h))"

text \<open>
  The pointer aliases among some declarations, each as the pair of the name pointed to
  and the alias name.
\<close>

fun alias_pair :: "decl \<Rightarrow> (string \<times> string) list" where
  "alias_pair (Typedef (Pointer (TypeName b)) a) = [(b, a)]"
| "alias_pair d = []"

definition alias_pairs :: "decl list \<Rightarrow> (string \<times> string) list" where
  "alias_pairs ds = concat (map alias_pair ds)"

text \<open>The names visible before the declaration of \<open>n\<close>.\<close>

definition declared_before :: "decl list \<Rightarrow> string \<Rightarrow> string list" where
  "declared_before ds n = takeWhile (\<lambda>m. m \<noteq> n) (map declared_name ds)"

section \<open>What the header emits\<close>

lemma handle_kinds_eq:
  "handle_kinds = [''virAdmClient'', ''virAdmConnect'', ''virAdmServer'']"
  by (simp add: handle_kinds_def all_declarations_def libvirt_admin_generated_typedefs_h_def)

lemma all_declarations_header:
  "all_declarations libvirt_admin_generated_typedefs_h =
     [Typedef (Struct ''_virAdmClient'') ''virAdmClient'',
      Typedef (Struct ''_virAdmConnect'') ''virAdmConnect'',
      Typedef (Struct ''_virAdmServer'') ''virAdmServer'',
      Typedef (Pointer (TypeName ''virAdmClient'')) ''virAdmClientPtr'',
      Typedef (Pointer (TypeName ''virAdmConnect'')) ''virAdmConnectPtr'',
      Typedef (Pointer (TypeName ''virAdmServer'')) ''virAdmServerPtr'']"
  by (simp add: all_declarations_def libvirt_admin_generated_typedefs_h_def)

text \<open>
  The guard \<^verbatim>\<open>!LIBVIR_CHECK_VERSION(2, 0, 0)\<close> holds exactly when the target
  version is below 2.0.0.
\<close>

lemma guard_eval:
  "eval_if (libvirt_env v)
     [Bang, Identifier ''LIBVIR_CHECK_VERSION'', LParen,
      PPNumber 2, Comma, PPNumber 0, Comma, PPNumber 0, RParen] =
   Inr (version_less v (Version 2 0 0))"
  by (simp add: eval_if_def libvirt_env_def version_at_least_def)

lemma include_shim_first:
  assumes "header_path \<notin> set (once_only tu)" and "declarations tu = []"
  shows "include_file (libvirt_env v) shim tu =
     Inr (tu\<lparr>once_only := header_path # once_only tu,
            declarations := (if version_less v (Version 2 0 0)
                             then all_declarations libvirt_admin_generated_typedefs_h
                             else [])\<rparr>)"
  using assms
  by (simp add: include_file_def shim_def libvirt_admin_generated_typedefs_h_def guard_eval
      add_declaration_def visible_names_def all_declarations_def)

lemma emitted_eq:
  "emitted v =
     Inr (if version_less v (Version 2 0 0)
          then all_declarations libvirt_admin_generated_typedefs_h else [])"
  by (simp add: emitted_def compile_def include_shim_first empty_unit_def)

lemma emitted_below:
  "version_less v (Version 2 0 0) \<Longrightarrow>
   emitted v =
     Inr [Typedef (Struct ''_virAdmClient'') ''virAdmClient'',
          Typedef (Struct ''_virAdmConnect'') ''virAdmConnect'',
          Typedef (Struct ''_virAdmServer'') ''virAdmServer'',
          Typedef (Pointer (TypeName ''virAdmClient'')) ''virAdmClientPtr'',
          Typedef (Pointer (TypeName ''virAdmConnect'')) ''virAdmConnectPtr'',
          Typedef (Pointer (TypeName ''virAdmServer'')) ''virAdmServerPtr'']"
  by (simp add: emitted_eq all_declarations_header)

lemma emitted_not_below:
  "\<not> version_less v (Version 2 0 0) \<Longrightarrow> emitted v = Inr []"
  by (simp add: emitted_eq)

subsection \<open>Including the header more than once\<close>

text \<open>No step of a pass removes a \<^verbatim>\<open>#pragma once\<close> mark.\<close>

lemma add_declaration_once_only:
  "add_declaration d tu = Inr tu' \<Longrightarrow> once_only tu' = once_only tu"
  by (auto simp: add_declaration_def split: if_splits list.splits)

lemma process_once_only_mono:
  "process_part env src p tu = Inr tu' \<Longrightarrow> set (once_only tu) \<subseteq> set (once_only tu')"
  "process_group env src ps tu = Inr tu' \<Longrightarrow> set (once_only tu) \<subseteq> set (once_only tu')"
proof (induction env src p tu and env src ps tu arbitrary: tu' and tu'
    rule: process_part_process_group.induct)
  case (1 env src tu)
  then show ?case by auto
next
  case (2 env src d tu)
  then show ?case by (auto dest: add_declaration_once_only)
next
  case (3 env src cond body tu)
  then show ?case by (auto split: sum.splits if_splits)
next
  case (4 env src tu)
  then show ?case by simp
next
  case (5 env src p ps tu)
  then show ?case by (fastforce split: sum.splits)
qed

lemma include_file_once_only_mono:
  "include_file env f tu = Inr tu' \<Longrightarrow> set (once_only tu) \<subseteq> set (once_only tu')"
  by (auto simp: include_file_def split: if_splits dest: process_once_only_mono(2))

lemma include_all_once_only_mono:
  "include_all env fs tu = Inr tu' \<Longrightarrow> set (once_only tu) \<subseteq> set (once_only tu')"
proof (induction fs arbitrary: tu)
  case Nil
  then show ?case by simp
next
  case (Cons f fs)
  then show ?case
    by (fastforce split: sum.splits dest: include_file_once_only_mono)
qed

lemma include_all_append:
  "include_all env (fs @ gs) tu =
     (case include_all env fs tu of Inl e \<Rightarrow> Inl e | Inr tu' \<Rightarrow> include_all env gs tu')"
  by (induction fs arbitrary: tu) (auto split: sum.splits)

lemma include_shim_marks:
  assumes "include_file env shim tu = Inr tu'"
  shows "header_path \<in> set (once_only tu')"
proof (cases "header_path \<in> set (once_only tu)")
  case True
  with assms show ?thesis by (simp add: include_file_def shim_def)
next
  case False
  obtain rest where h: "libvirt_admin_generated_typedefs_h = PragmaOnce # rest"
    by (simp add: libvirt_admin_generated_typedefs_h_def)
  from assms False
  have r: "process_group env header_path rest (tu\<lparr>once_only := header_path # once_only tu\<rparr>) = Inr tu'"
    by (simp add: include_file_def shim_def h)
  from process_once_only_mono(2)[OF r] show ?thesis by simp
qed

lemma include_shim_again:
  "header_path \<in> set (once_only tu) \<Longrightarrow> include_file env shim tu = Inr tu"
  by (simp add: include_file_def shim_def)

lemma second_inclusion_skipped:
  "include_all env (shim # mid @ [shim]) tu = include_all env (shim # mid) tu"
proof (cases "include_file env shim tu")
  case (Inl e)
  then show ?thesis by simp
next
  case (Inr tu1)
  note first = this
  show ?thesis
  proof (cases "include_all env mid tu1")
    case (Inl e)
    with first show ?thesis by (simp add: include_all_append)
  next
    case (Inr tu2)
    from include_shim_marks[OF first] include_all_once_only_mono[OF Inr]
    have "header_path \<in> set (once_only tu2)" by auto
    with first Inr show ?thesis by (simp add: include_all_append include_shim_again)
  qed
qed

lemma second_inclusion_skipped_anywhere:
  "include_all env (pre @ shim # mid @ [shim]) tu = include_all env (pre @ shim # mid) tu"
  by (simp only: include_all_append[of env pre] second_inclusion_skipped)

section \<open>The claims of the specification\<close>

text \<open>
  C1: for every handle kind \<open>K\<close> of the header (virAdmClient, virAdmConnect,
  virAdmServer; each guarded by the version 2.0.0), a build against the library at
  version \<open>v\<close> succeeds, and the opaque type declaration
  \<^verbatim>\<open>typedef struct _K K;\<close> and the pointer alias
  \<^verbatim>\<open>typedef K * KPtr;\<close> are each emitted if and only if \<open>v\<close> is
  strictly below 2.0.0. At or above 2.0.0 the shim declares neither name.
\<close>

theorem handle_emitted_iff_below_threshold:
  assumes "K \<in> set handle_kinds"
  shows "\<exists>ds. emitted v = Inr ds
    \<and> (Typedef (Struct (CHR ''_'' # K)) K \<in> set ds) = version_less v (Version 2 0 0)
    \<and> (Typedef (Pointer (TypeName K)) (K @ ''Ptr'') \<in> set ds) = version_less v (Version 2 0 0)
    \<and> (K \<in> set (map declared_name ds)) = version_less v (Version 2 0 0)
    \<and> (K @ ''Ptr'' \<in> set (map declared_name ds)) = version_less v (Version 2 0 0)"
proof -
  from assms consider "K = ''virAdmClient''" | "K = ''virAdmConnect''" | "K = ''virAdmServer''"
    by (auto simp: handle_kinds_eq)
  then show ?thesis
  proof cases
    case 1
    then show ?thesis
      by (cases "version_less v (Version 2 0 0)")
         (simp_all add: emitted_below emitted_not_below)
  next
    case 2
    then show ?thesis
      by (cases "version_less v (Version 2 0 0)")
         (simp_all add: emitted_below emitted_not_below)
  next
    case 3
    then show ?thesis
      by (cases "version_less v (Version 2 0 0)")
         (simp_all add: emitted_below emitted_not_below)
  qed
qed

text \<open>
  The theorem at virAdmClient: both declarations are emitted against 1.9.0, neither
  name is declared against 2.0.0.
\<close>

theorem handle_emitted_iff_below_threshold_witness:
  "''virAdmClient'' \<in> set handle_kinds
   \<and> (\<exists>ds. emitted (Version 1 9 0) = Inr ds
         \<and> Typedef (Struct ''_virAdmClient'') ''virAdmClient'' \<in> set ds
         \<and> Typedef (Pointer (TypeName ''virAdmClient'')) ''virAdmClientPtr'' \<in> set ds)
   \<and> (\<exists>ds. emitted (Version 2 0 0) = Inr ds
         \<and> ''virAdmClient'' \<notin> set (map declared_name ds)
         \<and> ''virAdmClientPtr'' \<notin> set (map declared_name ds))"
proof -
  have k: "''virAdmClient'' \<in> set handle_kinds"
    by (simp add: handle_kinds_eq)
  have below: "version_less (Version 1 9 0) (Version 2 0 0)"
    and not_below: "\<not> version_less (Version 2 0 0) (Version 2 0 0)"
    by simp_all
  from handle_emitted_iff_below_threshold[OF k, of "Version 1 9 0"] below
  have old: "\<exists>ds. emitted (Version 1 9 0) = Inr ds
         \<and> Typedef (Struct ''_virAdmClient'') ''virAdmClient'' \<in> set ds
         \<and> Typedef (Pointer (TypeName ''virAdmClient'')) ''virAdmClientPtr'' \<in> set ds"
    by auto
  from handle_emitted_iff_below_threshold[OF k, of "Version 2 0 0"] not_below
  have new: "\<exists>ds. emitted (Version 2 0 0) = Inr ds
         \<and> ''virAdmClient'' \<notin> set (map declared_name ds)
         \<and> ''virAdmClientPtr'' \<notin> set (map declared_name ds)"
    by auto
  from k old new show ?thesis by blast
qed

text \<open>
  C2, as the specification states it: the pointer alias of a handle kind is declared in
  the same conditional scope as its base handle declaration. That fails on the header:
  every declaration has a conditional section of its own. virAdmClient is declared in
  the section that is part 1 of the file (source lines 31 to 33), virAdmClientPtr in the
  section that is part 4 (source lines 43 to 45).
\<close>

theorem alias_scope_differs_from_base_scope:
  "scope_of libvirt_admin_generated_typedefs_h ''virAdmClient'' = Some 1
   \<and> scope_of libvirt_admin_generated_typedefs_h ''virAdmClientPtr'' = Some 4
   \<and> scope_of libvirt_admin_generated_typedefs_h ''virAdmClientPtr''
       \<noteq> scope_of libvirt_admin_generated_typedefs_h ''virAdmClient''"
  by (simp add: scope_of_def libvirt_admin_generated_typedefs_h_def)

text \<open>
  C2, amended: for every handle kind \<open>K\<close>, the pointer alias is declared in a
  conditional section of its own, which comes later in the file than the section of the
  base handle declaration and has the same controlling expression, token for token. So
  in every build against a library version, the pointer alias is never visible without
  its pointee type having become visible before it.
\<close>

theorem alias_guarded_as_base_and_after:
  assumes "K \<in> set handle_kinds"
  shows "(\<exists>i j g. scope_of libvirt_admin_generated_typedefs_h K = Some i
           \<and> scope_of libvirt_admin_generated_typedefs_h (K @ ''Ptr'') = Some j
           \<and> i < j
           \<and> guard_over libvirt_admin_generated_typedefs_h K = Some g
           \<and> guard_over libvirt_admin_generated_typedefs_h (K @ ''Ptr'') = Some g)
       \<and> (\<exists>ds. emitted v = Inr ds
           \<and> (K @ ''Ptr'' \<in> set (map declared_name ds)
                \<longrightarrow> K \<in> set (declared_before ds (K @ ''Ptr''))))"
proof -
  from assms consider "K = ''virAdmClient''" | "K = ''virAdmConnect''" | "K = ''virAdmServer''"
    by (auto simp: handle_kinds_eq)
  then show ?thesis
  proof cases
    case 1
    then show ?thesis
      by (simp add: scope_of_def libvirt_admin_generated_typedefs_h_def emitted_eq
          all_declarations_def declared_before_def)
  next
    case 2
    then show ?thesis
      by (simp add: scope_of_def libvirt_admin_generated_typedefs_h_def emitted_eq
          all_declarations_def declared_before_def)
  next
    case 3
    then show ?thesis
      by (simp add: scope_of_def libvirt_admin_generated_typedefs_h_def emitted_eq
          all_declarations_def declared_before_def)
  qed
qed

text \<open>
  The amended theorem at virAdmClient and version 1.9.0, where the alias is visible.
\<close>

theorem alias_guarded_as_base_and_after_witness:
  "''virAdmClient'' \<in> set handle_kinds
   \<and> (\<exists>ds. emitted (Version 1 9 0) = Inr ds
         \<and> ''virAdmClientPtr'' \<in> set (map declared_name ds)
         \<and> ''virAdmClient'' \<in> set (declared_before ds ''virAdmClientPtr''))
   \<and> guard_over libvirt_admin_generated_typedefs_h ''virAdmClientPtr''
       = guard_over libvirt_admin_generated_typedefs_h ''virAdmClient''"
proof -
  have k: "''virAdmClient'' \<in> set handle_kinds"
    by (simp add: handle_kinds_eq)
  have e: "emitted (Version 1 9 0) = Inr (all_declarations libvirt_admin_generated_typedefs_h)"
    by (simp add: emitted_eq)
  have a: "''virAdmClientPtr'' \<in> set (map declared_name (all_declarations libvirt_admin_generated_typedefs_h))"
    by (simp add: all_declarations_header)
  from alias_guarded_as_base_and_after[OF k, of "Version 1 9 0"] k e a
  show ?thesis by auto
qed

text \<open>
  C3: with the three handle kinds Client, Connect and Server, each under the threshold
  2.0.0, a build against version 1.9.0 yields exactly six symbols from the shim, three
  opaque types and three pointer aliases, each declared once; a build against version
  2.0.0 yields no symbol from the shim.
\<close>

theorem end_to_end_1_9_0_and_2_0_0:
  "(\<exists>ds. emitted (Version 1 9 0) = Inr ds
      \<and> ds = [Typedef (Struct ''_virAdmClient'') ''virAdmClient'',
              Typedef (Struct ''_virAdmConnect'') ''virAdmConnect'',
              Typedef (Struct ''_virAdmServer'') ''virAdmServer'',
              Typedef (Pointer (TypeName ''virAdmClient'')) ''virAdmClientPtr'',
              Typedef (Pointer (TypeName ''virAdmConnect'')) ''virAdmConnectPtr'',
              Typedef (Pointer (TypeName ''virAdmServer'')) ''virAdmServerPtr'']
      \<and> length ds = 6
      \<and> distinct (map declared_name ds))
   \<and> emitted (Version 2 0 0) = Inr []"
  by (simp add: emitted_eq all_declarations_header)

text \<open>
  C4: for every handle kind \<open>K\<close> and every target version, the build succeeds
  and any declaration the shim emits under the alias name of \<open>K\<close> has exactly
  the type pointer to \<open>K\<close>, and \<open>K\<close> itself is emitted in the same pass:
  the alias is never emitted when \<open>K\<close> is suppressed.
\<close>

theorem alias_is_pointer_to_emitted_base:
  assumes "K \<in> set handle_kinds"
  shows "\<exists>ds. emitted v = Inr ds
    \<and> (\<forall>d \<in> set ds. declared_name d = K @ ''Ptr''
          \<longrightarrow> declared_type d = Pointer (TypeName K) \<and> K \<in> set (map declared_name ds))"
proof -
  from assms consider "K = ''virAdmClient''" | "K = ''virAdmConnect''" | "K = ''virAdmServer''"
    by (auto simp: handle_kinds_eq)
  then show ?thesis
  proof cases
    case 1
    then show ?thesis
      by (cases "version_less v (Version 2 0 0)")
         (simp_all add: emitted_below emitted_not_below)
  next
    case 2
    then show ?thesis
      by (cases "version_less v (Version 2 0 0)")
         (simp_all add: emitted_below emitted_not_below)
  next
    case 3
    then show ?thesis
      by (cases "version_less v (Version 2 0 0)")
         (simp_all add: emitted_below emitted_not_below)
  qed
qed

text \<open>
  The theorem at virAdmServer and version 1.9.0, where the alias is emitted.
\<close>

theorem alias_is_pointer_to_emitted_base_witness:
  "''virAdmServer'' \<in> set handle_kinds
   \<and> (\<exists>ds. emitted (Version 1 9 0) = Inr ds
         \<and> Typedef (Pointer (TypeName ''virAdmServer'')) ''virAdmServerPtr'' \<in> set ds
         \<and> declared_type (Typedef (Pointer (TypeName ''virAdmServer'')) ''virAdmServerPtr'')
              = Pointer (TypeName ''virAdmServer'')
         \<and> ''virAdmServer'' \<in> set (map declared_name ds))"
proof -
  have k: "''virAdmServer'' \<in> set handle_kinds"
    by (simp add: handle_kinds_eq)
  from alias_is_pointer_to_emitted_base[OF k, of "Version 1 9 0"]
  obtain ds where e: "emitted (Version 1 9 0) = Inr ds"
    and p: "\<forall>d \<in> set ds. declared_name d = ''virAdmServer'' @ ''Ptr''
          \<longrightarrow> declared_type d = Pointer (TypeName ''virAdmServer'')
              \<and> ''virAdmServer'' \<in> set (map declared_name ds)"
    by blast
  from e have m: "Typedef (Pointer (TypeName ''virAdmServer'')) ''virAdmServerPtr'' \<in> set ds"
    by (auto simp: emitted_eq all_declarations_header)
  from p m have "''virAdmServer'' \<in> set (map declared_name ds)"
    by fastforce
  with k e m show ?thesis by simp
qed

text \<open>
  C5: the pointer aliases written in the header are exactly the handle kinds, each
  paired with its own name followed by the three characters \<^verbatim>\<open>Ptr\<close>
  (virAdmClientPtr, virAdmConnectPtr, virAdmServerPtr); and in every build against a
  library version, the aliases the shim emits are the emitted handle kinds with
  \<^verbatim>\<open>Ptr\<close> appended.
\<close>

theorem alias_name_is_base_name_Ptr:
  "alias_pairs (all_declarations libvirt_admin_generated_typedefs_h)
     = map (\<lambda>K. (K, K @ ''Ptr'')) handle_kinds
   \<and> map (\<lambda>K. K @ ''Ptr'') handle_kinds
     = [''virAdmClientPtr'', ''virAdmConnectPtr'', ''virAdmServerPtr'']
   \<and> (\<exists>ds. emitted v = Inr ds
        \<and> alias_pairs ds
          = map (\<lambda>K. (K, K @ ''Ptr''))
              (filter (\<lambda>K. K \<in> set (map declared_name ds)) handle_kinds))"
  by (cases "version_less v (Version 2 0 0)")
     (simp_all add: emitted_below emitted_not_below all_declarations_header handle_kinds_eq
        alias_pairs_def)

text \<open>
  C6: including the header twice in one compilation pass, one inclusion right after the
  other or with other files \<open>mid\<close> between them (and others \<open>pre\<close> before),
  gives what including it once gives, in every build environment; and against every
  target library version the pass with two inclusions succeeds, with every declared
  name declared once: no duplicate definition.
\<close>

theorem double_inclusion_idempotent:
  "compile (libvirt_env v) [shim, shim] = compile (libvirt_env v) [shim]
   \<and> (\<exists>ds. compile (libvirt_env v) [shim, shim] = Inr ds \<and> distinct (map declared_name ds))
   \<and> compile env (pre @ shim # mid @ [shim]) = compile env (pre @ shim # mid)"
proof -
  have twice: "compile (libvirt_env v) [shim, shim] = compile (libvirt_env v) [shim]"
    using second_inclusion_skipped[of "libvirt_env v" "[]" empty_unit]
    by (simp add: compile_def)
  have once: "compile (libvirt_env v) [shim] =
      Inr (if version_less v (Version 2 0 0)
           then all_declarations libvirt_admin_generated_typedefs_h else [])"
    using emitted_eq[of v] by (simp add: emitted_def)
  have names: "distinct (map declared_name (all_declarations libvirt_admin_generated_typedefs_h))"
    by (simp add: all_declarations_header)
  have anywhere: "compile env (pre @ shim # mid @ [shim]) = compile env (pre @ shim # mid)"
    by (simp only: compile_def second_inclusion_skipped_anywhere)
  from twice once names anywhere show ?thesis by simp
qed

text \<open>
  C7: when the target library version is exactly the threshold 2.0.0, the build succeeds
  and the shim emits no declaration at all: the boundary belongs to the native side.
\<close>

theorem threshold_version_suppresses:
  "emitted (Version 2 0 0) = Inr []"
  by (simp add: emitted_eq)

text \<open>
  C8: one patch level below 2.0.0 the shim emits its declarations for every handle
  kind. The version just below 2.0.0 has major number 1, whatever the range of the minor
  and patch numbers (1.999.999 when they have three digits); every version
  \<open>1.m.p\<close> yields all six declarations.
\<close>

theorem last_patch_below_threshold_emits:
  "emitted (Version 1 m p) =
     Inr [Typedef (Struct ''_virAdmClient'') ''virAdmClient'',
          Typedef (Struct ''_virAdmConnect'') ''virAdmConnect'',
          Typedef (Struct ''_virAdmServer'') ''virAdmServer'',
          Typedef (Pointer (TypeName ''virAdmClient'')) ''virAdmClientPtr'',
          Typedef (Pointer (TypeName ''virAdmConnect'')) ''virAdmConnectPtr'',
          Typedef (Pointer (TypeName ''virAdmServer'')) ''virAdmServerPtr'']"
  by (simp add: emitted_eq all_declarations_header)

text \<open>
  C9: in a build environment that does not define \<^verbatim>\<open>LIBVIR_CHECK_VERSION\<close>,
  compiling the shim fails at the first \<^verbatim>\<open>#if\<close>: the identifier is read
  as \<^verbatim>\<open>0\<close>, and the parenthesis that follows is not part of an expression.
  Neither branch is taken.
\<close>

theorem missing_predicate_fails_build:
  assumes "env ''LIBVIR_CHECK_VERSION'' = None"
  shows "compile env [shim] = Inl (MissingBinaryOperator LParen)"
  using assms
  by (simp add: compile_def include_file_def shim_def empty_unit_def
      libvirt_admin_generated_typedefs_h_def eval_if_def)

text \<open>
  The theorem in the environment that defines no macro at all.
\<close>

theorem missing_predicate_fails_build_witness:
  "Map.empty ''LIBVIR_CHECK_VERSION'' = (None :: function_macro option)
   \<and> compile Map.empty [shim] = Inl (MissingBinaryOperator LParen)"
proof -
  have h: "Map.empty ''LIBVIR_CHECK_VERSION'' = (None :: function_macro option)"
    by simp
  from missing_predicate_fails_build[OF h] h show ?thesis by simp
qed

text \<open>
  C10: the six conditional sections of the header all have the controlling expression
  \<^verbatim>\<open>!LIBVIR_CHECK_VERSION(2, 0, 0)\<close>, and against every target library
  version the shim emits either all six of its declarations or none.
\<close>

theorem emission_all_or_nothing:
  "guards libvirt_admin_generated_typedefs_h
     = replicate 6 [Bang, Identifier ''LIBVIR_CHECK_VERSION'', LParen,
                    PPNumber 2, Comma, PPNumber 0, Comma, PPNumber 0, RParen]
   \<and> length (all_declarations libvirt_admin_generated_typedefs_h) = 6
   \<and> (emitted v = Inr [] \<or> emitted v = Inr (all_declarations libvirt_admin_generated_typedefs_h))"
  by (simp add: guards_def libvirt_admin_generated_typedefs_h_def emitted_eq
      all_declarations_def numeral_eq_Suc)

end
